theory Spec2Isabelle
  imports Main "HOL-Library.Char_ord" "HOL-Library.List_Lexorder" "HOL-Library.Product_Lexorder"
begin

section \<open>The chord block of d3blocks: edge properties and the d3 payload\<close>

text \<open>
  A shallow embedding of \<^verbatim>\<open>src/d3blocks/chord/Chord.py\<close>: \<^verbatim>\<open>set_edge_properties\<close>
  (lines 24-115), the part of \<^verbatim>\<open>show\<close> that prepares the payload (lines 138-142) and
  \<^verbatim>\<open>get_data_ready_for_d3\<close> (lines 188-229). Logging and \<^verbatim>\<open>write_html\<close> (template and
  file output) are left out.
\<close>

subsection \<open>Python values\<close>

text \<open>
  The program stores, copies and prints floats and never computes with them. A float is
  therefore represented by the text that Python's \<^verbatim>\<open>str()\<close> prints for it
  (\<^verbatim>\<open>0.8\<close> is \<open>Float ''0.8''\<close>). Integers are HOL integers and are printed in decimal.
\<close>

datatype pyfloat = Float string

datatype number = IntNum int | FloatNum pyfloat

definition digit_char :: "nat \<Rightarrow> char" where
  "digit_char n = ''0123456789'' ! (n mod 10)"

fun str_nat :: "nat \<Rightarrow> string" where
  "str_nat n = (if n < 10 then [digit_char n] else str_nat (n div 10) @ [digit_char n])"

declare str_nat.simps [simp del]

definition str_int :: "int \<Rightarrow> string" where
  "str_int i = (if i < 0 then ''-'' @ str_nat (nat (- i)) else str_nat (nat i))"

fun str_float :: "pyfloat \<Rightarrow> string" where
  "str_float (Float s) = s"

fun str_number :: "number \<Rightarrow> string" where
  "str_number (IntNum i) = str_int i"
| "str_number (FloatNum f) = str_float f"

subsection \<open>The node dictionary\<close>

text \<open>
  \<^verbatim>\<open>nodes\<close> / \<^verbatim>\<open>labels\<close> is a dict from node key to a dict with the entries
  \<^verbatim>\<open>id\<close>, \<^verbatim>\<open>desc\<close>, \<^verbatim>\<open>color\<close> and \<^verbatim>\<open>opacity\<close>. It is an association list
  in insertion order; \<^verbatim>\<open>d.get(k)\<close> is \<open>dict_get\<close> and \<^verbatim>\<open>d.keys()\<close> is \<open>dict_keys\<close>.
  A dict holds each key once; no property below needs this of the list, since a lookup
  takes the first entry of a key. The opacity of a node is a float.
\<close>

record node =
  node_id :: int
  node_desc :: string
  node_color :: string
  node_opacity :: pyfloat

type_synonym nodes = "(string \<times> node) list"

definition dict_get :: "nodes \<Rightarrow> string \<Rightarrow> node option" where
  "dict_get d k = map_of d k"

definition dict_keys :: "nodes \<Rightarrow> string list" where
  "dict_keys d = map fst d"

subsection \<open>The edge table\<close>

text \<open>
  A pandas DataFrame, column by column. A column that the table does not have is \<open>None\<close>;
  \<open>nrows\<close> is \<^verbatim>\<open>df.shape[0]\<close>. In a table that pandas can build every column has
  \<open>nrows\<close> cells (\<open>wf_df\<close>).
\<close>

record dataframe =
  nrows :: nat
  c_source :: "string list option"
  c_target :: "string list option"
  c_weight :: "number list option"
  c_color :: "string list option"
  c_opacity :: "number list option"
  c_labels :: "nat list option"
  c_source_id :: "int list option"
  c_target_id :: "int list option"

definition col_ok :: "nat \<Rightarrow> 'a list option \<Rightarrow> bool" where
  "col_ok n c = (case c of None \<Rightarrow> True | Some xs \<Rightarrow> length xs = n)"

definition wf_df :: "dataframe \<Rightarrow> bool" where
  "wf_df df \<longleftrightarrow>
     col_ok (nrows df) (c_source df) \<and> col_ok (nrows df) (c_target df) \<and>
     col_ok (nrows df) (c_weight df) \<and> col_ok (nrows df) (c_color df) \<and>
     col_ok (nrows df) (c_opacity df) \<and> col_ok (nrows df) (c_labels df) \<and>
     col_ok (nrows df) (c_source_id df) \<and> col_ok (nrows df) (c_target_id df)"

text \<open>
  What the program can raise.
  \<^item> \<open>SizeMismatch\<close>: the \<^verbatim>\<open>Exception\<close> of line 66 (the spec's ConfigurationError);
  \<^item> \<open>SchemaError\<close>: raised by \<^verbatim>\<open>pre_processing\<close>;
  \<^item> \<open>MissingColumn\<close>: the \<^verbatim>\<open>KeyError\<close> of pandas for \<^verbatim>\<open>df[name]\<close> or \<^verbatim>\<open>row[name]\<close>
    when the table has no such column;
  \<^item> \<open>MissingNode\<close>: the \<^verbatim>\<open>TypeError\<close> of \<^verbatim>\<open>labels.get(x)['id']\<close> when \<^verbatim>\<open>x\<close> is not a key,
    so that \<^verbatim>\<open>get\<close> returns \<^verbatim>\<open>None\<close> (the spec's LookupError);
  \<^item> \<open>EmptyString\<close>: the \<^verbatim>\<open>IndexError\<close> of \<^verbatim>\<open>color[0]\<close> on the empty string.
\<close>

datatype error = SizeMismatch | SchemaError | MissingColumn | MissingNode | EmptyString

text \<open>The values the parameters \<^verbatim>\<open>opacity\<close> and \<^verbatim>\<open>color\<close> take.\<close>

datatype opacity_spec = ONone | OStr string | ONum number | OList "number list"

datatype color_spec = CNone | CStr string | CList "string list"

subsection \<open>\<^verbatim>\<open>set_edge_properties\<close>\<close>

definition default_opacity :: number where
  "default_opacity = FloatNum (Float ''0.8'')"

text \<open>\<^verbatim>\<open>isinstance(x, (list, np.ndarray))\<close> together with the test on \<^verbatim>\<open>len(x)\<close>.\<close>

fun opacity_size_differs :: "opacity_spec \<Rightarrow> nat \<Rightarrow> bool" where
  "opacity_size_differs (OList xs) n = (length xs \<noteq> n)"
| "opacity_size_differs _ n = False"

fun color_size_matches :: "color_spec \<Rightarrow> nat \<Rightarrow> bool" where
  "color_size_matches (CList xs) n = (length xs = n)"
| "color_size_matches _ n = False"

fun opacity_str :: "opacity_spec \<Rightarrow> string option" where
  "opacity_str (OStr s) = Some s"
| "opacity_str _ = None"

fun color_str :: "color_spec \<Rightarrow> string option" where
  "color_str (CStr s) = Some s"
| "color_str _ = None"

text \<open>
  \<^verbatim>\<open>(nodes is not None) and isinstance(x, str) and (x=='source' or x=='target')\<close>:
  the node dictionary and the column name when the test holds.
\<close>

fun node_policy :: "nodes option \<Rightarrow> string option \<Rightarrow> (nodes \<times> string) option" where
  "node_policy (Some nd) (Some s) =
     (if s = ''source'' \<or> s = ''target'' then Some (nd, s) else None)"
| "node_policy _ _ = None"

text \<open>\<^verbatim>\<open>df[name]\<close> for \<^verbatim>\<open>name\<close> one of \<^verbatim>\<open>'source'\<close> and \<^verbatim>\<open>'target'\<close>.\<close>

definition endpoint :: "dataframe \<Rightarrow> string \<Rightarrow> string list option" where
  "endpoint df name = (if name = ''source'' then c_source df else c_target df)"

text \<open>\<^verbatim>\<open>df.loc[df[name]==key, column] = v\<close> on the cells of the two columns.\<close>

definition loc_assign :: "string list \<Rightarrow> string \<Rightarrow> 'v \<Rightarrow> 'v list \<Rightarrow> 'v list" where
  "loc_assign col key v vals = map (\<lambda>(k, old). if k = key then v else old) (zip col vals)"

text \<open>
  The loop \<^verbatim>\<open>for key in nodes.keys(): df.loc[df[name]==key, column] = nodes.get(key)[field]\<close>
  (lines 75-76 and 99-100). \<open>None\<close> stands for \<^verbatim>\<open>nodes.get(key)\<close> finding nothing.
\<close>

fun assign_from_nodes ::
  "(node \<Rightarrow> 'v) \<Rightarrow> nodes \<Rightarrow> string list \<Rightarrow> string list \<Rightarrow> 'v list \<Rightarrow> 'v list option" where
  "assign_from_nodes field nd col [] vals = Some vals"
| "assign_from_nodes field nd col (key # ks) vals =
     (case dict_get nd key of
        None \<Rightarrow> None
      | Some n \<Rightarrow> assign_from_nodes field nd col ks (loc_assign col key (field n) vals))"

text \<open>
  Lines 74-76. The table is changed in place, so a failure leaves it as it was when the
  exception was raised: an error comes with that table.
\<close>

definition opacity_from_nodes ::
  "dataframe \<Rightarrow> string \<Rightarrow> nodes \<Rightarrow> (error \<times> dataframe) + dataframe" where
  "opacity_from_nodes df name nd =
     (let dflt = replicate (nrows df) default_opacity;
          df1 = df\<lparr>c_opacity := Some dflt\<rparr>
      in if dict_keys nd = [] then Inr df1
         else (case endpoint df name of
                 None \<Rightarrow> Inl (MissingColumn, df1)
               | Some col \<Rightarrow>
                   (case assign_from_nodes (\<lambda>n. FloatNum (node_opacity n)) nd col (dict_keys nd) dflt of
                      None \<Rightarrow> Inl (MissingNode, df1)
                    | Some vals \<Rightarrow> Inr (df\<lparr>c_opacity := Some vals\<rparr>))))"

text \<open>Lines 65-85: the opacity of the links.\<close>

definition set_opacity ::
  "dataframe \<Rightarrow> color_spec \<Rightarrow> opacity_spec \<Rightarrow> nodes option \<Rightarrow> (error \<times> dataframe) + dataframe" where
  "set_opacity df color opacity nodes =
     (if opacity_size_differs opacity (nrows df) then Inl (SizeMismatch, df)
      else if opacity = ONone \<and> c_opacity df \<noteq> None then Inr df
      else (case node_policy nodes (opacity_str opacity) of
              Some (nd, name) \<Rightarrow> opacity_from_nodes df name nd
            | None \<Rightarrow>
                (case opacity of
                   ONum p \<Rightarrow> Inr (df\<lparr>c_opacity := Some (replicate (nrows df) p)\<rparr>)
                 | _ \<Rightarrow>
                     if color_size_matches color (nrows df) then Inr df
                     else Inr (df\<lparr>c_opacity := Some (replicate (nrows df) default_opacity)\<rparr>))))"

text \<open>
  Modelled from the spec: \<^verbatim>\<open>utils.pre_processing\<close> is imported by \<^verbatim>\<open>Chord.py\<close> and is
  not among the source files. The spec (4.1): ``a pre-processing step normalizes the edge
  table: trims/validates required columns (source, target, weight must exist), fails with
  SchemaError if any is absent''. The normalisation of a key is the parameter \<open>trim\<close>; the
  other columns and the number and order of the rows are kept.
\<close>

definition pre_processing ::
  "(string \<Rightarrow> string) \<Rightarrow> dataframe \<Rightarrow> (error \<times> dataframe) + dataframe" where
  "pre_processing trim df =
     (if c_source df = None \<or> c_target df = None \<or> c_weight df = None
      then Inl (SchemaError, df)
      else Inr (df\<lparr>c_source := map_option (map trim) (c_source df),
                   c_target := map_option (map trim) (c_target df)\<rparr>))"

text \<open>Lines 98-100.\<close>

definition color_from_nodes ::
  "dataframe \<Rightarrow> string \<Rightarrow> nodes \<Rightarrow> (error \<times> dataframe) + dataframe" where
  "color_from_nodes df name nd =
     (let dflt = replicate (nrows df) ''#000000'';
          df1 = df\<lparr>c_color := Some dflt\<rparr>
      in if dict_keys nd = [] then Inr df1
         else (case endpoint df name of
                 None \<Rightarrow> Inl (MissingColumn, df1)
               | Some col \<Rightarrow>
                   (case assign_from_nodes node_color nd col (dict_keys nd) dflt of
                      None \<Rightarrow> Inl (MissingNode, df1)
                    | Some vals \<Rightarrow> Inr (df\<lparr>c_color := Some vals\<rparr>))))"

text \<open>The position of the first cell equal to \<open>v\<close>.\<close>

fun first_index :: "'a list \<Rightarrow> 'a \<Rightarrow> nat" where
  "first_index [] v = 0"
| "first_index (x # xs) v = (if x = v then 0 else Suc (first_index xs v))"

text \<open>
  Lines 110-111. \<^verbatim>\<open>df.groupby(['source', 'target']).size().reset_index()\<close> has one row for
  each pair of the table, the pairs in ascending order; \<^verbatim>\<open>ismember(..., method='rows')\<close>
  gives for each row of the table the position of its pair there.
\<close>

definition unique_pairs :: "string list \<Rightarrow> string list \<Rightarrow> (string \<times> string) list" where
  "unique_pairs src tgt = sort (remdups (zip src tgt))"

definition pair_labels :: "string list \<Rightarrow> string list \<Rightarrow> nat list" where
  "pair_labels src tgt = map (first_index (unique_pairs src tgt)) (zip src tgt)"

text \<open>
  Modelled from the spec: \<^verbatim>\<open>utils.set_colors\<close> is imported by \<^verbatim>\<open>Chord.py\<close> and is not
  among the source files. The spec (2, 4.1): the ColorResolver ``maps a categorical or
  continuous value to a hex color, given a palette name'', and the fallback ``map[s] labels
  to colors via ColorResolver using the requested palette''. The resolver is the parameter
  \<open>resolver\<close>; it is given the palette, all the labels of the call and the label to colour.
\<close>

definition set_colors ::
  "(string \<Rightarrow> string list \<Rightarrow> string \<Rightarrow> string) \<Rightarrow> string list \<Rightarrow> string \<Rightarrow> string list" where
  "set_colors resolver labels cmap = map (resolver cmap labels) labels"

text \<open>Lines 110-112.\<close>

definition color_from_pairs ::
  "(string \<Rightarrow> string list \<Rightarrow> string \<Rightarrow> string) \<Rightarrow> dataframe \<Rightarrow> string \<Rightarrow>
     (error \<times> dataframe) + dataframe" where
  "color_from_pairs resolver df cmap =
     (case c_source df of
        None \<Rightarrow> Inl (MissingColumn, df)
      | Some src \<Rightarrow>
          (case c_target df of
             None \<Rightarrow> Inl (MissingColumn, df)
           | Some tgt \<Rightarrow>
               (let labels = pair_labels src tgt
                in Inr (df\<lparr>c_labels := Some labels,
                            c_color := Some (set_colors resolver (map str_nat labels) cmap)\<rparr>))))"

text \<open>Lines 91-112: the colour of the links.\<close>

definition set_color ::
  "(string \<Rightarrow> string list \<Rightarrow> string \<Rightarrow> string) \<Rightarrow> dataframe \<Rightarrow> color_spec \<Rightarrow> string \<Rightarrow>
     nodes option \<Rightarrow> (error \<times> dataframe) + dataframe" where
  "set_color resolver df color cmap nodes =
     (if color = CNone \<and> c_color df \<noteq> None then Inr df
      else (case node_policy nodes (color_str color) of
              Some (nd, name) \<Rightarrow> color_from_nodes df name nd
            | None \<Rightarrow>
                (case color of
                   CStr s \<Rightarrow>
                     if s = [] then Inl (EmptyString, df)
                     else if hd s = CHR ''#'' \<and> length s = 7
                       then Inr (df\<lparr>c_color := Some (replicate (nrows df) s)\<rparr>)
                       else color_from_pairs resolver df cmap
                 | _ \<Rightarrow>
                     if color_size_matches color (nrows df) then Inr df
                     else color_from_pairs resolver df cmap)))"

text \<open>\<^verbatim>\<open>set_edge_properties\<close>: the opacity, then the pre-processing, then the colour.\<close>

definition set_edge_properties ::
  "(string \<Rightarrow> string) \<Rightarrow> (string \<Rightarrow> string list \<Rightarrow> string \<Rightarrow> string) \<Rightarrow> dataframe \<Rightarrow>
     color_spec \<Rightarrow> opacity_spec \<Rightarrow> string \<Rightarrow> nodes option \<Rightarrow> (error \<times> dataframe) + dataframe" where
  "set_edge_properties trim resolver df color opacity cmap nodes =
     (case set_opacity df color opacity nodes of
        Inl e \<Rightarrow> Inl e
      | Inr df1 \<Rightarrow>
          (case pre_processing trim df1 of
             Inl e \<Rightarrow> Inl e
           | Inr df2 \<Rightarrow> set_color resolver df2 color cmap nodes))"

subsection \<open>\<^verbatim>\<open>get_data_ready_for_d3\<close> and \<^verbatim>\<open>show\<close>\<close>

text \<open>\<^verbatim>\<open>list(map(lambda x: labels.get(x)[field], column))\<close>; \<open>None\<close> when a key is missing.\<close>

definition lookup_all :: "(node \<Rightarrow> 'a) \<Rightarrow> nodes \<Rightarrow> string list \<Rightarrow> 'a list option" where
  "lookup_all field labels col = those (map (\<lambda>x. map_option field (dict_get labels x)) col)"

text \<open>
  \<^verbatim>\<open>np.unique(list_id, return_index=True)[1]\<close>: for each value of the array, the values in
  ascending order, the position of its first occurrence.
\<close>

definition np_unique_index :: "int list \<Rightarrow> nat list" where
  "np_unique_index xs = map (first_index xs) (sort (remdups xs))"

text \<open>The text that one turn of the loop of lines 212-218 appends.\<close>

definition node_json :: "string \<Rightarrow> node \<Rightarrow> string" where
  \<open>node_json name n =
     ''{"name":"'' @ name @ ''",'' @
     ''"color":"'' @ node_color n @ ''",'' @
     ''"opacity":'' @ str_float (node_opacity n) @
     ''}, ''\<close>

text \<open>The loop of lines 212-218 over the names \<^verbatim>\<open>list_name[i]\<close>, \<^verbatim>\<open>i\<close> in \<^verbatim>\<open>idx\<close>.\<close>

fun emit_nodes :: "nodes \<Rightarrow> string list \<Rightarrow> string \<Rightarrow> error + string" where
  "emit_nodes labels [] X = Inr X"
| "emit_nodes labels (name # names) X =
     (case dict_get labels name of
        None \<Rightarrow> Inl MissingNode
      | Some n \<Rightarrow> emit_nodes labels names (X @ node_json name n))"

text \<open>The text that line 225 appends for one row.\<close>

definition link_json :: "int \<Rightarrow> int \<Rightarrow> number \<Rightarrow> number \<Rightarrow> string \<Rightarrow> string" where
  \<open>link_json sid tid w p c =
     ''{"source":'' @ str_int sid @ '',"target":'' @ str_int tid @
     '',"value":'' @ str_number w @ '',"opacity":'' @ str_number p @
     '',"color":'' @ ''"'' @ c @ ''"'' @ ''},''\<close>

text \<open>
  The loop of lines 224-225, one text for each row in the order of the rows. A table with no
  row reads no column.
\<close>

definition link_rows :: "dataframe \<Rightarrow> error + string list" where
  "link_rows df =
     (if nrows df = 0 then Inr []
      else (case (c_source_id df, c_target_id df, c_weight df, c_opacity df, c_color df) of
              (Some a, Some b, Some w, Some p, Some c) \<Rightarrow>
                Inr (map (\<lambda>i. link_json (a ! i) (b ! i) (w ! i) (p ! i) (c ! i)) [0..<nrows df])
            | _ \<Rightarrow> Inl MissingColumn))"

text \<open>Lines 206-229; \<^verbatim>\<open>X[:-1]\<close> is \<open>butlast X\<close>.\<close>

definition get_data_ready_for_d3 :: "dataframe \<Rightarrow> nodes \<Rightarrow> error + string" where
  \<open>get_data_ready_for_d3 df labels =
     (case c_source df of None \<Rightarrow> Inl MissingColumn | Some src \<Rightarrow>
     (case lookup_all node_id labels src of None \<Rightarrow> Inl MissingNode | Some sids \<Rightarrow>
     (case c_target df of None \<Rightarrow> Inl MissingColumn | Some tgt \<Rightarrow>
     (case lookup_all node_id labels tgt of None \<Rightarrow> Inl MissingNode | Some tids \<Rightarrow>
     (case lookup_all node_desc labels src of None \<Rightarrow> Inl MissingNode | Some sdesc \<Rightarrow>
     (case lookup_all node_desc labels tgt of None \<Rightarrow> Inl MissingNode | Some tdesc \<Rightarrow>
        (let list_id = sids @ tids;
             list_name = sdesc @ tdesc;
             idx = np_unique_index list_id
         in (case emit_nodes labels (map (\<lambda>i. list_name ! i) idx) ''{"nodes":['' of
               Inl e \<Rightarrow> Inl e
             | Inr X1 \<Rightarrow>
                 (let X2 = butlast X1 @ ''],'';
                      X3 = X2 @ '' "links":[''
                  in (case link_rows df of
                        Inl e \<Rightarrow> Inl e
                      | Inr ls \<Rightarrow> Inr (butlast (X3 @ concat ls) @ '']}'')))))))))))\<close>

text \<open>
  Lines 138-142 of \<^verbatim>\<open>show\<close>: the columns \<^verbatim>\<open>source_id\<close> and \<^verbatim>\<open>target_id\<close> are added and the
  payload is built. The result is the text \<^verbatim>\<open>X\<close> that \<^verbatim>\<open>show\<close> hands to \<^verbatim>\<open>write_html\<close>.
\<close>

definition show_payload :: "dataframe \<Rightarrow> nodes \<Rightarrow> error + string" where
  "show_payload df labels =
     (case c_source df of None \<Rightarrow> Inl MissingColumn | Some src \<Rightarrow>
     (case lookup_all node_id labels src of None \<Rightarrow> Inl MissingNode | Some sids \<Rightarrow>
     (case c_target df of None \<Rightarrow> Inl MissingColumn | Some tgt \<Rightarrow>
     (case lookup_all node_id labels tgt of None \<Rightarrow> Inl MissingNode | Some tids \<Rightarrow>
        get_data_ready_for_d3 (df\<lparr>c_source_id := Some sids, c_target_id := Some tids\<rparr>) labels))))"

text \<open>
  The keys of the nodes that the loop of lines 212-218 visits: the entries of \<^verbatim>\<open>source\<close>
  followed by \<^verbatim>\<open>target\<close> at the positions \<^verbatim>\<open>idx\<close> of line 208 (for tables whose keys are
  all in the catalog).
\<close>

definition emitted_keys :: "nodes \<Rightarrow> string list \<Rightarrow> string list \<Rightarrow> string list" where
  "emitted_keys labels src tgt =
     map (\<lambda>i. (src @ tgt) ! i)
       (np_unique_index (map (\<lambda>k. node_id (the (dict_get labels k))) (src @ tgt)))"

subsection \<open>Example inputs\<close>

text \<open>
  The catalog and the one-row table of the round trip of the specification (section 8), and
  variations of them.
\<close>

definition example_nodes :: nodes where
  "example_nodes =
     [(''A'', \<lparr>node_id = 0, node_desc = ''A'', node_color = ''#fff'', node_opacity = Float ''0.5''\<rparr>),
      (''B'', \<lparr>node_id = 1, node_desc = ''B'', node_color = ''#000'', node_opacity = Float ''0.9''\<rparr>)]"

definition example_edges :: dataframe where
  "example_edges =
     \<lparr>nrows = 1, c_source = Some [''A''], c_target = Some [''B''], c_weight = Some [IntNum 3],
      c_color = None, c_opacity = None, c_labels = None, c_source_id = None, c_target_id = None\<rparr>"

text \<open>A row whose target \<^verbatim>\<open>C\<close> is not a key of the catalog.\<close>

definition example_unknown_edges :: dataframe where
  "example_unknown_edges = example_edges\<lparr>c_target := Some [''C'']\<rparr>"

text \<open>A resolver for the examples: the colour is read off the label.\<close>

definition example_resolver :: "string \<Rightarrow> string list \<Rightarrow> string \<Rightarrow> string" where
  "example_resolver cmap labels label = ''#00000'' @ label"

text \<open>A table without the column \<^verbatim>\<open>weight\<close>.\<close>

definition example_no_weight :: dataframe where
  "example_no_weight = example_edges\<lparr>c_weight := None\<rparr>"

text \<open>A table in which two rows have the same pair and different weights, and what
  \<^verbatim>\<open>set_edge_properties\<close> makes of it with the default opacity and no colour.\<close>

definition example_repeated_edges :: dataframe where
  "example_repeated_edges =
     \<lparr>nrows = 3, c_source = Some [''A'', ''B'', ''A''], c_target = Some [''B'', ''A'', ''B''],
      c_weight = Some [IntNum 3, IntNum 1, IntNum 5],
      c_color = None, c_opacity = None, c_labels = None, c_source_id = None, c_target_id = None\<rparr>"

definition example_repeated_result :: dataframe where
  "example_repeated_result = example_repeated_edges
       \<lparr>c_color := Some [''#000000'', ''#000001'', ''#000000''],
        c_opacity := Some [default_opacity, default_opacity, default_opacity],
        c_labels := Some [0, 1, 0]\<rparr>"

text \<open>
  A table of two rows with its colours, opacities and ids, in which each key occurs as a
  source and as a target.
\<close>

definition example_links :: dataframe where
  "example_links =
     \<lparr>nrows = 2, c_source = Some [''B'', ''A''], c_target = Some [''A'', ''B''],
      c_weight = Some [IntNum 3, IntNum 5],
      c_color = Some [''#000'', ''#fff''],
      c_opacity = Some [FloatNum (Float ''0.9''), FloatNum (Float ''0.5'')],
      c_labels = None, c_source_id = Some [1, 0], c_target_id = Some [0, 1]\<rparr>"

text \<open>A catalog in which no description is a key.\<close>

definition example_renamed_nodes :: nodes where
  "example_renamed_nodes =
     [(''A'', \<lparr>node_id = 0, node_desc = ''Alpha'', node_color = ''#fff'', node_opacity = Float ''0.5''\<rparr>),
      (''B'', \<lparr>node_id = 1, node_desc = ''Beta'', node_color = ''#000'', node_opacity = Float ''0.9''\<rparr>)]"

section \<open>Properties\<close>

subsection \<open>Looking keys up\<close>

lemma dict_get_None_iff: "dict_get d k = None \<longleftrightarrow> k \<notin> set (dict_keys d)"
  by (simp add: dict_get_def dict_keys_def map_of_eq_None_iff)

lemma lookup_all_Some:
  "set col \<subseteq> set (dict_keys labels) \<Longrightarrow>
   lookup_all f labels col = Some (map (\<lambda>x. f (the (dict_get labels x))) col)"
proof (induction col)
  case Nil
  then show ?case by (simp add: lookup_all_def)
next
  case (Cons k ks)
  from Cons.prems have "dict_get labels k \<noteq> None"
    by (simp add: dict_get_None_iff)
  then obtain n where "dict_get labels k = Some n" by blast
  moreover from Cons have "lookup_all f labels ks = Some (map (\<lambda>x. f (the (dict_get labels x))) ks)"
    by simp
  ultimately show ?case by (simp add: lookup_all_def)
qed

lemma lookup_all_None:
  "\<not> set col \<subseteq> set (dict_keys labels) \<Longrightarrow> lookup_all f labels col = None"
proof (induction col)
  case Nil
  then show ?case by simp
next
  case (Cons k ks)
  show ?case
  proof (cases "dict_get labels k")
    case None
    then show ?thesis by (simp add: lookup_all_def)
  next
    case (Some n)
    then have "k \<in> set (dict_keys labels)"
      using dict_get_None_iff [of labels k] by simp
    with Cons.prems have "\<not> set ks \<subseteq> set (dict_keys labels)" by simp
    then have "lookup_all f labels ks = None" by (rule Cons.IH)
    with Some show ?thesis by (simp add: lookup_all_def)
  qed
qed

subsection \<open>The steps of \<^verbatim>\<open>set_edge_properties\<close>\<close>

lemma zip_map_zip:
  "zip col (map g (zip col vals)) = map (\<lambda>p. (fst p, g p)) (zip col vals)"
proof (induction col arbitrary: vals)
  case Nil
  then show ?case by simp
next
  case (Cons k ks)
  then show ?case by (cases vals) simp_all
qed

lemma length_loc_assign: "length col = length vals \<Longrightarrow> length (loc_assign col key v vals) = length vals"
  by (simp add: loc_assign_def)

lemma assign_from_nodes_keys:
  "set ks \<subseteq> set (dict_keys nd) \<Longrightarrow> length col = length vals \<Longrightarrow>
   assign_from_nodes field nd col ks vals =
     Some (map (\<lambda>(k, old). if k \<in> set ks then field (the (dict_get nd k)) else old) (zip col vals))"
proof (induction ks arbitrary: vals)
  case Nil
  then show ?case by (simp add: case_prod_unfold map_snd_zip)
next
  case (Cons key ks)
  from Cons.prems have "dict_get nd key \<noteq> None" by (simp add: dict_get_None_iff)
  then obtain n where n: "dict_get nd key = Some n" by blast
  from Cons.prems have sub: "set ks \<subseteq> set (dict_keys nd)" by simp
  from Cons.prems have len: "length col = length (loc_assign col key (field n) vals)"
    by (simp add: length_loc_assign)
  note IH = Cons.IH [OF sub len]
  show ?case
    by (simp add: IH n) (auto simp: loc_assign_def zip_map_zip n)
qed

lemma assign_from_all_keys:
  "assign_from_nodes field nd col (dict_keys nd) (replicate (length col) d) =
     Some (map (\<lambda>k. case dict_get nd k of None \<Rightarrow> d | Some n \<Rightarrow> field n) col)"
proof -
  have eq: "(if k \<in> set (dict_keys nd) then field (the (dict_get nd k)) else d) =
        (case dict_get nd k of None \<Rightarrow> d | Some n \<Rightarrow> field n)" for k
  proof (cases "dict_get nd k")
    case None
    then have "k \<notin> set (dict_keys nd)" by (simp add: dict_get_None_iff)
    with None show ?thesis by simp
  next
    case (Some n)
    then have "k \<in> set (dict_keys nd)"
      using dict_get_None_iff [of nd k] by simp
    with Some show ?thesis by simp
  qed
  show ?thesis
    by (simp add: assign_from_nodes_keys zip_replicate2 comp_def eq)
qed

lemma opacity_from_nodes_result:
  assumes "endpoint df name = Some col" and "length col = nrows df"
  shows "opacity_from_nodes df name nd =
     Inr (df\<lparr>c_opacity := Some (map (\<lambda>k. case dict_get nd k of
                                              None \<Rightarrow> default_opacity
                                            | Some n \<Rightarrow> FloatNum (node_opacity n)) col)\<rparr>)"
proof (cases "dict_keys nd = []")
  case True
  then have "dict_get nd k = None" for k by (simp add: dict_get_None_iff)
  with True assms show ?thesis
    by (simp add: opacity_from_nodes_def Let_def map_replicate_const)
next
  case False
  with assms assign_from_all_keys [of "\<lambda>n. FloatNum (node_opacity n)" nd col default_opacity]
  show ?thesis by (simp add: opacity_from_nodes_def Let_def)
qed

lemma color_from_nodes_result:
  assumes "endpoint df name = Some col" and "length col = nrows df"
  shows "color_from_nodes df name nd =
     Inr (df\<lparr>c_color := Some (map (\<lambda>k. case dict_get nd k of
                                            None \<Rightarrow> ''#000000''
                                          | Some n \<Rightarrow> node_color n) col)\<rparr>)"
proof (cases "dict_keys nd = []")
  case True
  then have "dict_get nd k = None" for k by (simp add: dict_get_None_iff)
  with True assms show ?thesis
    by (simp add: color_from_nodes_def Let_def map_replicate_const)
next
  case False
  with assms assign_from_all_keys [of node_color nd col "''#000000''"]
  show ?thesis by (simp add: color_from_nodes_def Let_def)
qed

lemma node_policy_Some:
  "node_policy nodes s = Some (nd, name) \<Longrightarrow>
   nodes = Some nd \<and> s = Some name \<and> (name = ''source'' \<or> name = ''target'')"
  by (cases "(nodes, s)" rule: node_policy.cases) (auto split: if_splits)

lemma endpoint_wf:
  assumes "wf_df df" and "c_source df = Some src" and "c_target df = Some tgt"
    and "name = ''source'' \<or> name = ''target''"
  shows "\<exists>col. endpoint df name = Some col \<and> length col = nrows df"
  using assms by (auto simp: endpoint_def wf_df_def col_ok_def)

text \<open>The opacity step writes the opacity column and nothing else, also when it fails.\<close>

lemma opacity_from_nodes_frame:
  "opacity_from_nodes df name nd = r \<Longrightarrow>
   \<exists>ops. r = Inr (df\<lparr>c_opacity := ops\<rparr>) \<or> (\<exists>e. r = Inl (e, df\<lparr>c_opacity := ops\<rparr>))"
  by (auto simp: opacity_from_nodes_def Let_def split: option.splits if_splits)

lemma unchanged_opacity: "df\<lparr>c_opacity := c_opacity df\<rparr> = df"
  by simp

lemma set_opacity_frame:
  "\<exists>ops. set_opacity df color opacity nodes = Inr (df\<lparr>c_opacity := ops\<rparr>) \<or>
         (\<exists>e. set_opacity df color opacity nodes = Inl (e, df\<lparr>c_opacity := ops\<rparr>))"
proof (cases "opacity_size_differs opacity (nrows df)")
  case True
  then have "set_opacity df color opacity nodes = Inl (SizeMismatch, df\<lparr>c_opacity := c_opacity df\<rparr>)"
    by (simp add: set_opacity_def)
  then show ?thesis by blast
next
  case False
  note nd = this
  show ?thesis
  proof (cases "opacity = ONone \<and> c_opacity df \<noteq> None")
    case True
    with nd have "set_opacity df color opacity nodes = Inr (df\<lparr>c_opacity := c_opacity df\<rparr>)"
      by (simp add: set_opacity_def)
    then show ?thesis by blast
  next
    case False
    note nn = this
    show ?thesis
    proof (cases "node_policy nodes (opacity_str opacity)")
      case (Some p)
      obtain nd' name where p: "p = (nd', name)" by (cases p)
      with nd nn Some have "set_opacity df color opacity nodes = opacity_from_nodes df name nd'"
        by (auto simp: set_opacity_def)
      with opacity_from_nodes_frame [OF refl, of df name nd'] show ?thesis by simp
    next
      case None
      show ?thesis
      proof (cases "\<exists>p. opacity = ONum p")
        case True
        then obtain p where "opacity = ONum p" by blast
        with nd nn None have "set_opacity df color opacity nodes =
            Inr (df\<lparr>c_opacity := Some (replicate (nrows df) p)\<rparr>)"
          by (auto simp: set_opacity_def)
        then show ?thesis by blast
      next
        case False
        with nd nn None have "set_opacity df color opacity nodes =
            (if color_size_matches color (nrows df) then Inr (df\<lparr>c_opacity := c_opacity df\<rparr>)
             else Inr (df\<lparr>c_opacity := Some (replicate (nrows df) default_opacity)\<rparr>))"
          by (cases opacity) (auto simp: set_opacity_def)
        then show ?thesis by (metis (full_types))
      qed
    qed
  qed
qed

lemma pre_processing_ok:
  assumes "c_source df = Some src" and "c_target df = Some tgt" and "c_weight df = Some w"
  shows "pre_processing trim df = Inr (df\<lparr>c_source := Some (map trim src), c_target := Some (map trim tgt)\<rparr>)"
  using assms by (simp add: pre_processing_def)

lemma color_from_pairs_ok:
  assumes "c_source df = Some src" and "c_target df = Some tgt"
  shows "color_from_pairs resolver df cmap =
    Inr (df\<lparr>c_labels := Some (pair_labels src tgt),
            c_color := Some (set_colors resolver (map str_nat (pair_labels src tgt)) cmap)\<rparr>)"
  using assms by (simp add: color_from_pairs_def Let_def)

text \<open>The colour step returns, and leaves the opacity alone, unless the colour is the empty string.\<close>

lemma set_color_ok:
  assumes wf: "wf_df df" and src: "c_source df = Some src" and tgt: "c_target df = Some tgt"
    and ne: "color \<noteq> CStr []"
  shows "\<exists>df'. set_color resolver df color cmap nodes = Inr df' \<and> c_opacity df' = c_opacity df"
proof (cases "color = CNone \<and> c_color df \<noteq> None")
  case True
  then show ?thesis by (simp add: set_color_def)
next
  case False
  note first = this
  show ?thesis
  proof (cases "node_policy nodes (color_str color)")
    case (Some p)
    obtain nd name where p: "p = (nd, name)" by (cases p)
    with Some have "name = ''source'' \<or> name = ''target''"
      using node_policy_Some by blast
    from endpoint_wf [OF wf src tgt this] obtain col where
      "endpoint df name = Some col" "length col = nrows df" by blast
    with first Some p show ?thesis
      by (auto simp: set_color_def color_from_nodes_result)
  next
    case None
    with first ne show ?thesis
      by (cases color) (auto simp: set_color_def color_from_pairs_ok [OF src tgt])
  qed
qed

subsection \<open>Errors\<close>

text \<open>
  Claim C7. A per-row opacity sequence whose length is not the number of rows of the table
  makes \<^verbatim>\<open>set_edge_properties\<close> raise the size exception of line 66 (the spec's
  ConfigurationError), whatever the table, the colour specification, the palette and the
  nodes are; the table is as it was.
\<close>

theorem set_edge_properties_size_mismatch:
  "length xs \<noteq> nrows df \<Longrightarrow>
   set_edge_properties trim resolver df color (OList xs) cmap nodes = Inl (SizeMismatch, df)"
  by (simp add: set_edge_properties_def set_opacity_def)

theorem set_edge_properties_size_mismatch_witness:
  "length [default_opacity, default_opacity] \<noteq> nrows example_edges \<and>
   set_edge_properties (\<lambda>s. s) example_resolver example_edges (CList [''#ffffff''])
     (OList [default_opacity, default_opacity]) ''tab20'' (Some example_nodes)
   = Inl (SizeMismatch, example_edges)"
  using set_edge_properties_size_mismatch
    [of "[default_opacity, default_opacity]" example_edges "\<lambda>s. s" example_resolver
        "CList [''#ffffff'']" "''tab20''" "Some example_nodes"]
  by (simp add: example_edges_def)

text \<open>
  Claim C8. When a source or a target of the table is not a key of the catalog, the id
  resolution of \<^verbatim>\<open>show\<close> (lines 139-140) fails: \<^verbatim>\<open>labels.get(x)\<close> is \<^verbatim>\<open>None\<close> and
  subscripting it raises (the spec's LookupError). No payload is produced and no id is
  made up.
\<close>

theorem show_payload_missing_key:
  assumes "c_source df = Some src" and "c_target df = Some tgt"
    and "\<not> set src \<union> set tgt \<subseteq> set (dict_keys labels)"
  shows "show_payload df labels = Inl MissingNode"
proof (cases "set src \<subseteq> set (dict_keys labels)")
  case True
  with assms(3) have "\<not> set tgt \<subseteq> set (dict_keys labels)" by simp
  then have "lookup_all node_id labels tgt = None" by (rule lookup_all_None)
  with True assms(1,2) show ?thesis
    by (simp add: show_payload_def lookup_all_Some)
next
  case False
  then have "lookup_all node_id labels src = None" by (rule lookup_all_None)
  with assms(1) show ?thesis by (simp add: show_payload_def)
qed

theorem show_payload_missing_key_witness:
  "c_source example_unknown_edges = Some [''A''] \<and>
   c_target example_unknown_edges = Some [''C''] \<and>
   \<not> set [''A''] \<union> set [''C''] \<subseteq> set (dict_keys example_nodes) \<and>
   show_payload example_unknown_edges example_nodes = Inl MissingNode"
proof -
  have s: "c_source example_unknown_edges = Some [''A'']"
    by (simp add: example_unknown_edges_def example_edges_def)
  have t: "c_target example_unknown_edges = Some [''C'']"
    by (simp add: example_unknown_edges_def)
  have k: "\<not> set [''A''] \<union> set [''C''] \<subseteq> set (dict_keys example_nodes)"
    by (simp add: dict_keys_def example_nodes_def)
  from s t k show_payload_missing_key [OF s t k] show ?thesis by blast
qed

subsection \<open>Opacity from the nodes\<close>

lemma set_opacity_node_based:
  assumes "name = ''source'' \<or> name = ''target''"
  shows "set_opacity df color (OStr name) (Some nd) = opacity_from_nodes df name nd"
  using assms by (auto simp: set_opacity_def)

lemma opacity_by_endpoint:
  assumes wf: "wf_df df" and src: "c_source df = Some src" and tgt: "c_target df = Some tgt"
    and w: "c_weight df = Some w" and ne: "color \<noteq> CStr []"
    and name: "name = ''source'' \<or> name = ''target''"
  shows "\<exists>df' col. endpoint df name = Some col \<and>
     set_edge_properties trim resolver df color (OStr name) cmap (Some nd) = Inr df' \<and>
     c_opacity df' = Some (map (\<lambda>k. case dict_get nd k of
                                      None \<Rightarrow> default_opacity
                                    | Some n \<Rightarrow> FloatNum (node_opacity n)) col)"
proof -
  from endpoint_wf [OF wf src tgt name] obtain col where
    col: "endpoint df name = Some col" "length col = nrows df" by blast
  define ops where "ops = map (\<lambda>k. case dict_get nd k of
      None \<Rightarrow> default_opacity | Some n \<Rightarrow> FloatNum (node_opacity n)) col"
  define df1 where "df1 = df\<lparr>c_opacity := Some ops\<rparr>"
  define df2 where "df2 = df1\<lparr>c_source := Some (map trim src), c_target := Some (map trim tgt)\<rparr>"
  have s1: "set_opacity df color (OStr name) (Some nd) = Inr df1"
    using col by (simp add: set_opacity_node_based [OF name] opacity_from_nodes_result df1_def ops_def)
  have s2: "pre_processing trim df1 = Inr df2"
    using src tgt w by (simp add: pre_processing_def df1_def df2_def)
  have wf2: "wf_df df2"
    using wf src tgt col by (simp add: wf_df_def col_ok_def df2_def df1_def ops_def)
  have "c_source df2 = Some (map trim src)" "c_target df2 = Some (map trim tgt)"
    by (simp_all add: df2_def)
  from set_color_ok [OF wf2 this ne, of resolver cmap "Some nd"] obtain df' where
    s3: "set_color resolver df2 color cmap (Some nd) = Inr df'" "c_opacity df' = c_opacity df2"
    by blast
  have "set_edge_properties trim resolver df color (OStr name) cmap (Some nd) = Inr df'"
    by (simp add: set_edge_properties_def s1 s2 s3)
  moreover have "c_opacity df' = Some ops"
    by (simp add: s3 df2_def df1_def)
  ultimately show ?thesis using col by (simp add: ops_def)
qed

text \<open>
  Claim C4. With the nodes supplied and the opacity \<^verbatim>\<open>'source'\<close> (or \<^verbatim>\<open>'target'\<close>),
  \<^verbatim>\<open>set_edge_properties\<close> returns, and the opacity of each row is the opacity of the node
  that its source (its target) names when that key is in the nodes, and the default 0.8
  when it is not. The column holds nothing else. The table has its three required columns;
  the colour specification is any but the empty string, on which the colour step raises.
\<close>

theorem opacity_from_endpoint_node:
  assumes "wf_df df" and "c_source df = Some src" and "c_target df = Some tgt"
    and "c_weight df = Some w" and "color \<noteq> CStr []"
  shows "(\<exists>df'. set_edge_properties trim resolver df color (OStr ''source'') cmap (Some nd) = Inr df' \<and>
            c_opacity df' = Some (map (\<lambda>k. case dict_get nd k of
                                             None \<Rightarrow> default_opacity
                                           | Some n \<Rightarrow> FloatNum (node_opacity n)) src)) \<and>
         (\<exists>df'. set_edge_properties trim resolver df color (OStr ''target'') cmap (Some nd) = Inr df' \<and>
            c_opacity df' = Some (map (\<lambda>k. case dict_get nd k of
                                             None \<Rightarrow> default_opacity
                                           | Some n \<Rightarrow> FloatNum (node_opacity n)) tgt))"
proof
  from opacity_by_endpoint [OF assms, of "''source''" trim resolver cmap nd] assms(2)
  show "\<exists>df'. set_edge_properties trim resolver df color (OStr ''source'') cmap (Some nd) = Inr df' \<and>
            c_opacity df' = Some (map (\<lambda>k. case dict_get nd k of
                                             None \<Rightarrow> default_opacity
                                           | Some n \<Rightarrow> FloatNum (node_opacity n)) src)"
    by (auto simp: endpoint_def)
  from opacity_by_endpoint [OF assms, of "''target''" trim resolver cmap nd] assms(3)
  show "\<exists>df'. set_edge_properties trim resolver df color (OStr ''target'') cmap (Some nd) = Inr df' \<and>
            c_opacity df' = Some (map (\<lambda>k. case dict_get nd k of
                                             None \<Rightarrow> default_opacity
                                           | Some n \<Rightarrow> FloatNum (node_opacity n)) tgt)"
    by (auto simp: endpoint_def)
qed

lemma wf_example_unknown_edges: "wf_df example_unknown_edges"
  by (simp add: wf_df_def col_ok_def example_unknown_edges_def example_edges_def)

theorem opacity_from_endpoint_node_witness:
  "wf_df example_unknown_edges \<and>
   c_source example_unknown_edges = Some [''A''] \<and>
   c_target example_unknown_edges = Some [''C''] \<and>
   c_weight example_unknown_edges = Some [IntNum 3] \<and>
   CStr ''#ffffff'' \<noteq> CStr [] \<and>
   (\<exists>df'. set_edge_properties (\<lambda>s. s) example_resolver example_unknown_edges (CStr ''#ffffff'')
             (OStr ''source'') ''tab20'' (Some example_nodes) = Inr df' \<and>
          c_opacity df' = Some [FloatNum (Float ''0.5'')]) \<and>
   (\<exists>df'. set_edge_properties (\<lambda>s. s) example_resolver example_unknown_edges (CStr ''#ffffff'')
             (OStr ''target'') ''tab20'' (Some example_nodes) = Inr df' \<and>
          c_opacity df' = Some [FloatNum (Float ''0.8'')])"
proof -
  have s: "c_source example_unknown_edges = Some [''A'']"
    and t: "c_target example_unknown_edges = Some [''C'']"
    and w: "c_weight example_unknown_edges = Some [IntNum 3]"
    by (simp_all add: example_unknown_edges_def example_edges_def)
  have c: "CStr ''#ffffff'' \<noteq> CStr []" by simp
  have A: "dict_get example_nodes ''A'' =
      Some \<lparr>node_id = 0, node_desc = ''A'', node_color = ''#fff'', node_opacity = Float ''0.5''\<rparr>"
    and C: "dict_get example_nodes ''C'' = None"
    by (simp_all add: dict_get_def example_nodes_def)
  from opacity_from_endpoint_node [OF wf_example_unknown_edges s t w c,
      of "\<lambda>s. s" example_resolver "''tab20''" example_nodes]
  show ?thesis
    by (simp add: wf_example_unknown_edges s t w A C default_opacity_def)
qed

subsection \<open>A per-row colour sequence and the opacity\<close>

text \<open>
  Claim C9. The colour is a per-row sequence as long as the table, and none of the first four
  opacity tests holds: the opacity is not a sequence of another length, not \<^verbatim>\<open>None\<close> with
  an opacity column in the table, not \<^verbatim>\<open>'source'\<close> or \<^verbatim>\<open>'target'\<close> with nodes supplied,
  and not a number. Then the branch of lines 81-82 writes nothing: \<^verbatim>\<open>set_edge_properties\<close>
  is the pre-processing of the input table alone, and the table it returns has the opacity
  column of the input (none, when the input has none).
\<close>

theorem color_sequence_keeps_opacity:
  assumes "length cs = nrows df"
    and "\<not> opacity_size_differs opacity (nrows df)"
    and "\<not> (opacity = ONone \<and> c_opacity df \<noteq> None)"
    and "node_policy nodes (opacity_str opacity) = None"
    and "\<forall>p. opacity \<noteq> ONum p"
  shows "set_edge_properties trim resolver df (CList cs) opacity cmap nodes = pre_processing trim df \<and>
         (\<forall>df'. set_edge_properties trim resolver df (CList cs) opacity cmap nodes = Inr df'
            \<longrightarrow> c_opacity df' = c_opacity df)"
proof -
  from assms have s1: "set_opacity df (CList cs) opacity nodes = Inr df"
    by (cases opacity) (auto simp: set_opacity_def)
  have s3: "set_color resolver df2 (CList cs) cmap nodes = Inr df2" if "nrows df2 = nrows df" for df2
  proof -
    have "node_policy nodes (color_str (CList cs)) = None" by simp
    with that assms(1) show ?thesis by (simp add: set_color_def)
  qed
  have eq: "set_edge_properties trim resolver df (CList cs) opacity cmap nodes = pre_processing trim df"
  proof (cases "pre_processing trim df")
    case (Inl e)
    then show ?thesis by (simp add: set_edge_properties_def s1)
  next
    case (Inr df2)
    then have "nrows df2 = nrows df"
      by (auto simp: pre_processing_def split: if_splits)
    from s3 [OF this] Inr show ?thesis by (simp add: set_edge_properties_def s1)
  qed
  have "c_opacity df' = c_opacity df" if "pre_processing trim df = Inr df'" for df'
    using that by (auto simp: pre_processing_def split: if_splits)
  with eq show ?thesis by simp
qed

theorem color_sequence_keeps_opacity_witness:
  "length [''#ffffff''] = nrows example_edges \<and>
   \<not> opacity_size_differs (OStr ''source'') (nrows example_edges) \<and>
   \<not> (OStr ''source'' = ONone \<and> c_opacity example_edges \<noteq> None) \<and>
   node_policy None (opacity_str (OStr ''source'')) = None \<and>
   (\<forall>p. OStr ''source'' \<noteq> ONum p) \<and>
   set_edge_properties (\<lambda>s. s) example_resolver example_edges (CList [''#ffffff''])
     (OStr ''source'') ''tab20'' None = Inr example_edges \<and>
   c_opacity example_edges = None"
proof -
  have 1: "length [''#ffffff''] = nrows example_edges" by (simp add: example_edges_def)
  have 2: "\<not> opacity_size_differs (OStr ''source'') (nrows example_edges)" by simp
  have 3: "\<not> (OStr ''source'' = ONone \<and> c_opacity example_edges \<noteq> None)" by simp
  have 4: "node_policy None (opacity_str (OStr ''source'')) = None" by simp
  have 5: "\<forall>p. OStr ''source'' \<noteq> ONum p" by simp
  have pp: "pre_processing (\<lambda>s. s) example_edges = Inr example_edges"
    by (simp add: pre_processing_def example_edges_def)
  note main = color_sequence_keeps_opacity [OF 1 2 3 4 5, of "\<lambda>s. s" example_resolver "''tab20''"]
  have r: "set_edge_properties (\<lambda>s. s) example_resolver example_edges (CList [''#ffffff''])
     (OStr ''source'') ''tab20'' None = Inr example_edges"
    using main [THEN conjunct1] pp by (rule trans)
  have o: "c_opacity example_edges = None" by (simp add: example_edges_def)
  from 1 2 3 4 5 r o show ?thesis by blast
qed

subsection \<open>A required column is missing\<close>

text \<open>
  Claim C6, as amended. The opacity step (lines 65-85) runs before the pre-processing (line
  88), and the colour step (lines 91-112) after it. On a table without one of \<^verbatim>\<open>source\<close>,
  \<^verbatim>\<open>target\<close> and \<^verbatim>\<open>weight\<close>, \<^verbatim>\<open>set_edge_properties\<close> fails before any colour is computed:
  the colour and label columns of the table are those of the input. When the opacity step
  itself fails, its error is the one raised; when it returns, the error is SchemaError and
  the table is the one the opacity step left, its opacity column possibly assigned.
\<close>

theorem missing_column_fails_after_opacity:
  assumes "c_source df = None \<or> c_target df = None \<or> c_weight df = None"
  shows "\<exists>e df'. set_edge_properties trim resolver df color opacity cmap nodes = Inl (e, df') \<and>
           c_color df' = c_color df \<and> c_labels df' = c_labels df \<and>
           (case set_opacity df color opacity nodes of
              Inl x \<Rightarrow> x = (e, df')
            | Inr df1 \<Rightarrow> e = SchemaError \<and> df' = df1)"
proof -
  from set_opacity_frame [of df color opacity nodes] obtain ops where
    "set_opacity df color opacity nodes = Inr (df\<lparr>c_opacity := ops\<rparr>) \<or>
     (\<exists>e. set_opacity df color opacity nodes = Inl (e, df\<lparr>c_opacity := ops\<rparr>))" by blast
  then show ?thesis
  proof
    assume "set_opacity df color opacity nodes = Inr (df\<lparr>c_opacity := ops\<rparr>)"
    with assms show ?thesis
      by (auto simp: set_edge_properties_def pre_processing_def)
  next
    assume "\<exists>e. set_opacity df color opacity nodes = Inl (e, df\<lparr>c_opacity := ops\<rparr>)"
    then show ?thesis
      by (auto simp: set_edge_properties_def)
  qed
qed

theorem missing_column_fails_after_opacity_witness:
  "(c_source example_no_weight = None \<or> c_target example_no_weight = None \<or>
      c_weight example_no_weight = None) \<and>
   set_opacity example_no_weight (CStr ''target'') (ONum default_opacity) None =
     Inr (example_no_weight\<lparr>c_opacity := Some [default_opacity]\<rparr>) \<and>
   (\<exists>e df'. set_edge_properties (\<lambda>s. s) example_resolver example_no_weight (CStr ''target'')
        (ONum default_opacity) ''tab20'' None = Inl (e, df') \<and>
      c_color df' = None \<and> c_labels df' = None \<and> e = SchemaError \<and>
      df' = example_no_weight\<lparr>c_opacity := Some [default_opacity]\<rparr>)"
proof -
  have h: "c_source example_no_weight = None \<or> c_target example_no_weight = None \<or>
      c_weight example_no_weight = None"
    by (simp add: example_no_weight_def)
  have o: "set_opacity example_no_weight (CStr ''target'') (ONum default_opacity) None =
     Inr (example_no_weight\<lparr>c_opacity := Some [default_opacity]\<rparr>)"
    by (simp add: set_opacity_def example_no_weight_def example_edges_def)
  have c: "c_color example_no_weight = None" "c_labels example_no_weight = None"
    by (simp_all add: example_no_weight_def example_edges_def)
  from missing_column_fails_after_opacity [OF h, of "\<lambda>s. s" example_resolver "CStr ''target''"
      "ONum default_opacity" "''tab20''" None]
  show ?thesis by (simp add: h o c)
qed

text \<open>
  Claim C6 as stated fails: with the default opacity 0.8 the column \<^verbatim>\<open>opacity\<close> is assigned
  (line 80) before the pre-processing raises, so the table at the failure is not the input.
\<close>

theorem schema_error_after_opacity_assigned:
  "c_weight example_no_weight = None \<and> c_opacity example_no_weight = None \<and>
   set_edge_properties (\<lambda>s. s) example_resolver example_no_weight (CStr ''target'')
     (ONum default_opacity) ''tab20'' None
   = Inl (SchemaError, example_no_weight\<lparr>c_opacity := Some [default_opacity]\<rparr>) \<and>
   set_edge_properties (\<lambda>s. s) example_resolver example_no_weight (CStr ''target'')
     (ONum default_opacity) ''tab20'' None
   \<noteq> Inl (SchemaError, example_no_weight)"
  by (simp add: set_edge_properties_def set_opacity_def pre_processing_def
      example_no_weight_def example_edges_def)

subsection \<open>A per-row opacity sequence\<close>

text \<open>
  A sequence of the right length passes the test of line 65 and matches none of the tests
  that follow on the opacity: the column is left alone when the colour is a per-row sequence
  too, and set to 0.8 otherwise. The sequence is never written to the table.
\<close>

lemma opacity_sequence_step:
  "length xs = nrows df \<Longrightarrow>
   set_opacity df color (OList xs) nodes =
     (if color_size_matches color (nrows df) then Inr df
      else Inr (df\<lparr>c_opacity := Some (replicate (nrows df) default_opacity)\<rparr>))"
  by (cases nodes) (simp_all add: set_opacity_def)

lemma str_nat_0: "str_nat 0 = ''0''"
  by (simp add: str_nat.simps [of 0] digit_char_def)

text \<open>
  Claim C2 at a table of one row, with the opacity \<^verbatim>\<open>[0.1]\<close> and the default colour
  \<^verbatim>\<open>'target'\<close>: the opacity of the row is 0.8, not 0.1.
\<close>

theorem opacity_sequence_not_applied:
  "set_edge_properties (\<lambda>s. s) example_resolver example_edges (CStr ''target'')
     (OList [FloatNum (Float ''0.1'')]) ''tab20'' None
   = Inr (example_edges\<lparr>c_color := Some [''#000000''],
                        c_opacity := Some [FloatNum (Float ''0.8'')],
                        c_labels := Some [0]\<rparr>)"
  by (simp add: set_edge_properties_def set_opacity_def pre_processing_def set_color_def
      color_from_pairs_def pair_labels_def unique_pairs_def set_colors_def
      example_resolver_def example_edges_def default_opacity_def str_nat_0)

subsection \<open>Colours from the pairs\<close>

lemma set_opacity_Inr_frame:
  assumes "set_opacity df color opacity nodes = Inr df1"
  shows "\<exists>ops. df1 = df\<lparr>c_opacity := ops\<rparr>"
  using set_opacity_frame [of df color opacity nodes] assms by auto

lemma set_color_fallback:
  assumes "c_color df = None" and "c_source df = Some src" and "c_target df = Some tgt"
  shows "set_color resolver df CNone cmap nodes =
    Inr (df\<lparr>c_labels := Some (pair_labels src tgt),
            c_color := Some (set_colors resolver (map str_nat (pair_labels src tgt)) cmap)\<rparr>)"
proof -
  have "node_policy nodes (color_str CNone) = None" by (cases nodes) simp_all
  with assms show ?thesis by (simp add: set_color_def color_from_pairs_ok)
qed

lemma fallback_color_nth:
  assumes "i < length src" and "length tgt = length src"
  shows "set_colors resolver (map str_nat (pair_labels src tgt)) cmap ! i =
     resolver cmap (map str_nat (pair_labels src tgt))
       (str_nat (first_index (unique_pairs src tgt) (src ! i, tgt ! i)))"
  using assms by (simp add: set_colors_def pair_labels_def)

text \<open>
  Claim C3. The colour is \<^verbatim>\<open>None\<close> and the table has no colour column, so the colours come
  from the fallback of lines 108-112. In the table that \<^verbatim>\<open>set_edge_properties\<close> returns, the
  colour of a row is a function \<open>f\<close> of its (source, target) pair alone: two rows with the same
  pair have the same colour, whatever their weights and positions. The same holds for two rows
  that have the same pair in the input table.
\<close>

theorem same_pair_same_color:
  assumes "wf_df df" and "c_color df = None"
    and "set_edge_properties trim resolver df CNone opacity cmap nodes = Inr df'"
  shows "\<exists>src tgt srcs tgts cols f.
           c_source df = Some src \<and> c_target df = Some tgt \<and>
           c_source df' = Some srcs \<and> c_target df' = Some tgts \<and> c_color df' = Some cols \<and>
           nrows df' = nrows df \<and> length src = nrows df \<and> length tgt = nrows df \<and>
           length srcs = nrows df \<and> length tgts = nrows df \<and> length cols = nrows df \<and>
           (\<forall>i<nrows df. cols ! i = f (srcs ! i, tgts ! i)) \<and>
           (\<forall>i<nrows df. \<forall>j<nrows df.
              srcs ! i = srcs ! j \<and> tgts ! i = tgts ! j \<longrightarrow> cols ! i = cols ! j) \<and>
           (\<forall>i<nrows df. \<forall>j<nrows df.
              src ! i = src ! j \<and> tgt ! i = tgt ! j \<longrightarrow> cols ! i = cols ! j)"
proof -
  from assms(3) obtain df1 where s1: "set_opacity df CNone opacity nodes = Inr df1"
    by (cases "set_opacity df CNone opacity nodes") (simp_all add: set_edge_properties_def)
  from set_opacity_Inr_frame [OF s1] obtain ops where df1: "df1 = df\<lparr>c_opacity := ops\<rparr>"
    by blast
  from assms(3) s1 obtain df2 where s2: "pre_processing trim df1 = Inr df2"
    by (cases "pre_processing trim df1") (simp_all add: set_edge_properties_def)
  from s2 obtain src tgt where cols: "c_source df = Some src" "c_target df = Some tgt"
    by (auto simp: pre_processing_def df1 split: if_splits)
  from s2 cols have df2: "df2 = df1\<lparr>c_source := Some (map trim src), c_target := Some (map trim tgt)\<rparr>"
    by (auto simp: pre_processing_def df1 split: if_splits)
  from assms(1) cols have len: "length src = nrows df" "length tgt = nrows df"
    by (simp_all add: wf_df_def col_ok_def)
  define srcs where "srcs = map trim src"
  define tgts where "tgts = map trim tgt"
  define L where "L = map str_nat (pair_labels srcs tgts)"
  define cs where "cs = set_colors resolver L cmap"
  define f where "f = (\<lambda>p. resolver cmap L (str_nat (first_index (unique_pairs srcs tgts) p)))"
  have "set_color resolver df2 CNone cmap nodes =
      Inr (df2\<lparr>c_labels := Some (pair_labels srcs tgts), c_color := Some cs\<rparr>)"
    using assms(2) by (simp add: set_color_fallback df2 df1 srcs_def tgts_def cs_def L_def)
  with assms(3) s1 s2 have df': "df' = df2\<lparr>c_labels := Some (pair_labels srcs tgts), c_color := Some cs\<rparr>"
    by (simp add: set_edge_properties_def)
  have lens: "length srcs = nrows df" "length tgts = nrows df"
    using len by (simp_all add: srcs_def tgts_def)
  have lcs: "length cs = nrows df"
    using lens by (simp add: cs_def L_def set_colors_def pair_labels_def)
  have nth: "cs ! i = f (srcs ! i, tgts ! i)" if "i < nrows df" for i
    using that lens fallback_color_nth [of i srcs tgts resolver cmap]
    by (simp add: cs_def L_def f_def)
  have same: "cs ! i = cs ! j"
    if "i < nrows df" "j < nrows df" "srcs ! i = srcs ! j" "tgts ! i = tgts ! j" for i j
    using that by (simp add: nth)
  have same0: "cs ! i = cs ! j"
    if "i < nrows df" "j < nrows df" "src ! i = src ! j" "tgt ! i = tgt ! j" for i j
  proof -
    from that len have "srcs ! i = srcs ! j" "tgts ! i = tgts ! j"
      by (simp_all add: srcs_def tgts_def)
    with that(1,2) show ?thesis by (rule same)
  qed
  have "c_source df' = Some srcs" "c_target df' = Some tgts" "c_color df' = Some cs"
    "nrows df' = nrows df"
    by (simp_all add: df' df2 df1 srcs_def tgts_def)
  note out = this
  show ?thesis
  proof (intro exI conjI)
    show "c_source df = Some src" "c_target df = Some tgt" by fact+
    show "c_source df' = Some srcs" "c_target df' = Some tgts" "c_color df' = Some cs"
      "nrows df' = nrows df" by fact+
    show "length src = nrows df" "length tgt = nrows df" by fact+
    show "length srcs = nrows df" "length tgts = nrows df" "length cs = nrows df" by fact+
    show "\<forall>i<nrows df. cs ! i = f (srcs ! i, tgts ! i)" using nth by blast
    show "\<forall>i<nrows df. \<forall>j<nrows df.
              srcs ! i = srcs ! j \<and> tgts ! i = tgts ! j \<longrightarrow> cs ! i = cs ! j"
      using same by blast
    show "\<forall>i<nrows df. \<forall>j<nrows df.
              src ! i = src ! j \<and> tgt ! i = tgt ! j \<longrightarrow> cs ! i = cs ! j"
      using same0 by blast
  qed
qed

lemma example_repeated_edges_colors:
  "set_edge_properties (\<lambda>s. s) example_resolver example_repeated_edges CNone
      (ONum default_opacity) ''tab20'' None
   = Inr example_repeated_result"
  by code_simp

theorem same_pair_same_color_witness:
  "wf_df example_repeated_edges \<and> c_color example_repeated_edges = None \<and>
   set_edge_properties (\<lambda>s. s) example_resolver example_repeated_edges CNone
      (ONum default_opacity) ''tab20'' None = Inr example_repeated_result \<and>
   c_color example_repeated_result = Some [''#000000'', ''#000001'', ''#000000''] \<and>
   (\<exists>src tgt srcs tgts cols f.
           c_source example_repeated_edges = Some src \<and> c_target example_repeated_edges = Some tgt \<and>
           c_source example_repeated_result = Some srcs \<and>
           c_target example_repeated_result = Some tgts \<and>
           c_color example_repeated_result = Some cols \<and>
           nrows example_repeated_result = nrows example_repeated_edges \<and>
           length src = nrows example_repeated_edges \<and> length tgt = nrows example_repeated_edges \<and>
           length srcs = nrows example_repeated_edges \<and> length tgts = nrows example_repeated_edges \<and>
           length cols = nrows example_repeated_edges \<and>
           (\<forall>i<nrows example_repeated_edges. cols ! i = f (srcs ! i, tgts ! i)) \<and>
           (\<forall>i<nrows example_repeated_edges. \<forall>j<nrows example_repeated_edges.
              srcs ! i = srcs ! j \<and> tgts ! i = tgts ! j \<longrightarrow> cols ! i = cols ! j) \<and>
           (\<forall>i<nrows example_repeated_edges. \<forall>j<nrows example_repeated_edges.
              src ! i = src ! j \<and> tgt ! i = tgt ! j \<longrightarrow> cols ! i = cols ! j))"
proof -
  have wf: "wf_df example_repeated_edges"
    by (simp add: wf_df_def col_ok_def example_repeated_edges_def)
  have c: "c_color example_repeated_edges = None"
    by (simp add: example_repeated_edges_def)
  have cr: "c_color example_repeated_result = Some [''#000000'', ''#000001'', ''#000000'']"
    by (simp add: example_repeated_result_def)
  note r = example_repeated_edges_colors
  from same_pair_same_color [OF wf c r] wf c r cr show ?thesis by (intro conjI)
qed

subsection \<open>The payload\<close>

lemma emit_nodes_Some:
  "set names \<subseteq> set (dict_keys labels) \<Longrightarrow>
   emit_nodes labels names X =
     Inr (X @ concat (map (\<lambda>d. node_json d (the (dict_get labels d))) names))"
proof (induction names arbitrary: X)
  case Nil
  then show ?case by simp
next
  case (Cons d ds)
  then have "dict_get labels d \<noteq> None" by (simp add: dict_get_None_iff)
  then obtain n where "dict_get labels d = Some n" by blast
  with Cons show ?case by simp
qed

lemma emit_nodes_None:
  "\<not> set names \<subseteq> set (dict_keys labels) \<Longrightarrow> emit_nodes labels names X = Inl MissingNode"
proof (induction names arbitrary: X)
  case Nil
  then show ?case by simp
next
  case (Cons d ds)
  show ?case
  proof (cases "dict_get labels d")
    case None
    then show ?thesis by simp
  next
    case (Some n)
    then have "d \<in> set (dict_keys labels)"
      using dict_get_None_iff [of labels d] by simp
    with Cons.prems have "\<not> set ds \<subseteq> set (dict_keys labels)" by simp
    from Cons.IH [OF this] Some show ?thesis by simp
  qed
qed

lemma first_index_less: "v \<in> set xs \<Longrightarrow> first_index xs v < length xs"
  by (induction xs) auto

lemma nth_first_index: "v \<in> set xs \<Longrightarrow> xs ! first_index xs v = v"
  by (induction xs) auto

lemma np_unique_index_less: "i \<in> set (np_unique_index xs) \<Longrightarrow> i < length xs"
  by (auto simp: np_unique_index_def first_index_less)

lemma nth_np_unique_index: "map (\<lambda>i. xs ! i) (np_unique_index xs) = sort (remdups xs)"
proof -
  have "map (\<lambda>v. xs ! first_index xs v) ys = ys" if "set ys \<subseteq> set xs" for ys
    using that by (induction ys) (simp_all add: nth_first_index)
  then show ?thesis by (simp add: np_unique_index_def comp_def)
qed

lemma strict_sorted_unique: "sorted_wrt (<) (sort (remdups (xs :: int list)))"
  by (simp add: strict_sorted_iff)

lemma map_nth_map:
  "\<forall>i \<in> set is. i < length xs \<Longrightarrow> map (\<lambda>i. map g xs ! i) is = map g (map (\<lambda>i. xs ! i) is)"
  by (induction "is") simp_all

lemma emitted_ids:
  "map (\<lambda>k. node_id (the (dict_get labels k))) (emitted_keys labels src tgt) =
   sort (remdups (map (\<lambda>k. node_id (the (dict_get labels k))) (src @ tgt)))"
proof -
  let ?g = "\<lambda>k. node_id (the (dict_get labels k))"
  let ?idx = "np_unique_index (map ?g (src @ tgt))"
  have "\<forall>i \<in> set ?idx. i < length (src @ tgt)"
    using np_unique_index_less [of _ "map ?g (src @ tgt)"] by simp
  from map_nth_map [OF this, of ?g, symmetric]
  have "map ?g (emitted_keys labels src tgt) = map (\<lambda>i. map ?g (src @ tgt) ! i) ?idx"
    by (simp add: emitted_keys_def)
  then show ?thesis by (simp only: nth_np_unique_index)
qed

lemma emitted_keys_subset: "set (emitted_keys labels src tgt) \<subseteq> set src \<union> set tgt"
proof
  fix k assume "k \<in> set (emitted_keys labels src tgt)"
  then obtain i where "i \<in> set (np_unique_index (map (\<lambda>k. node_id (the (dict_get labels k))) (src @ tgt)))"
    and k: "k = (src @ tgt) ! i" by (auto simp: emitted_keys_def)
  then have "i < length (src @ tgt)"
    using np_unique_index_less [of i "map (\<lambda>k. node_id (the (dict_get labels k))) (src @ tgt)"] by simp
  then have "(src @ tgt) ! i \<in> set (src @ tgt)" by (rule nth_mem)
  with k show "k \<in> set src \<union> set tgt" by simp
qed

text \<open>The payload once the keys of the table are known to be in the catalog.\<close>

lemma get_data_ready_for_d3_known_keys:
  assumes src: "c_source df = Some src" and tgt: "c_target df = Some tgt"
    and keys: "set src \<union> set tgt \<subseteq> set (dict_keys labels)"
  shows \<open>get_data_ready_for_d3 df labels =
    (case emit_nodes labels
            (map (\<lambda>k. node_desc (the (dict_get labels k))) (emitted_keys labels src tgt))
            ''{"nodes":['' of
       Inl e \<Rightarrow> Inl e
     | Inr X1 \<Rightarrow>
         (case link_rows df of
            Inl e \<Rightarrow> Inl e
          | Inr ls \<Rightarrow> Inr (butlast X1 @ ''],'' @ butlast ('' "links":['' @ concat ls) @ '']}'')))\<close>
proof -
  let ?id = "\<lambda>k. node_id (the (dict_get labels k))"
  let ?desc = "\<lambda>k. node_desc (the (dict_get labels k))"
  let ?idx = "np_unique_index (map ?id (src @ tgt))"
  from keys have s: "set src \<subseteq> set (dict_keys labels)" and t: "set tgt \<subseteq> set (dict_keys labels)"
    by simp_all
  have "\<forall>i \<in> set ?idx. i < length (src @ tgt)"
    using np_unique_index_less [of _ "map ?id (src @ tgt)"] by simp
  from map_nth_map [OF this, of ?desc]
  have names: "map (\<lambda>i. (map ?desc src @ map ?desc tgt) ! i) ?idx =
      map ?desc (emitted_keys labels src tgt)"
    by (simp add: emitted_keys_def)
  show ?thesis
    unfolding get_data_ready_for_d3_def src tgt option.case
      lookup_all_Some [OF s] lookup_all_Some [OF t] Let_def
    using names by (auto simp: butlast_append split: sum.splits)
qed

lemma link_rows_Inr:
  assumes "link_rows df = Inr ls"
  shows "length ls = nrows df \<and>
     (nrows df = 0 \<or>
      (\<exists>a b w p c. c_source_id df = Some a \<and> c_target_id df = Some b \<and> c_weight df = Some w \<and>
         c_opacity df = Some p \<and> c_color df = Some c \<and>
         (\<forall>i<nrows df. ls ! i = link_json (a ! i) (b ! i) (w ! i) (p ! i) (c ! i))))"
  using assms by (auto simp: link_rows_def split: if_splits option.splits)

text \<open>
  Claim C5. When every source and target of the table is a key of the catalog and
  \<^verbatim>\<open>get_data_ready_for_d3\<close> returns a payload, the node entries of the payload are those of
  the keys \<open>emitted_keys\<close>: their ids are strictly increasing, so no id is entered twice
  however often a key occurs in the two columns, and they are the ids of all the keys of the
  table. The link entries are one for each row, the entry at position \<open>i\<close> rendered from row
  \<open>i\<close> of the table.
\<close>

theorem payload_nodes_by_id_links_by_row:
  assumes "c_source df = Some src" and "c_target df = Some tgt"
    and "set src \<union> set tgt \<subseteq> set (dict_keys labels)"
    and "get_data_ready_for_d3 df labels = Inr X"
  shows \<open>\<exists>ks ls.
      ks = emitted_keys labels src tgt \<and>
      set ks \<subseteq> set src \<union> set tgt \<and>
      sorted_wrt (<) (map (\<lambda>k. node_id (the (dict_get labels k))) ks) \<and>
      distinct (map (\<lambda>k. node_id (the (dict_get labels k))) ks) \<and>
      (\<lambda>k. node_id (the (dict_get labels k))) ` set ks =
        (\<lambda>k. node_id (the (dict_get labels k))) ` (set src \<union> set tgt) \<and>
      link_rows df = Inr ls \<and> length ls = nrows df \<and>
      (nrows df = 0 \<or>
       (\<exists>a b w p c. c_source_id df = Some a \<and> c_target_id df = Some b \<and> c_weight df = Some w \<and>
          c_opacity df = Some p \<and> c_color df = Some c \<and>
          (\<forall>i<nrows df. ls ! i = link_json (a ! i) (b ! i) (w ! i) (p ! i) (c ! i)))) \<and>
      X = butlast (''{"nodes":['' @
            concat (map (\<lambda>k. node_json (node_desc (the (dict_get labels k)))
                              (the (dict_get labels (node_desc (the (dict_get labels k)))))) ks))
          @ ''],'' @ butlast ('' "links":['' @ concat ls) @ '']}''\<close>
proof -
  let ?id = "\<lambda>k. node_id (the (dict_get labels k))"
  let ?desc = "\<lambda>k. node_desc (the (dict_get labels k))"
  let ?ks = "emitted_keys labels src tgt"
  note eq = get_data_ready_for_d3_known_keys [OF assms(1-3)]
  have names: "set (map ?desc ?ks) \<subseteq> set (dict_keys labels)"
  proof (rule ccontr)
    assume "\<not> ?thesis"
    from emit_nodes_None [OF this] eq assms(4) show False by simp
  qed
  from emit_nodes_Some [OF names] eq assms(4) obtain ls where
    ls: "link_rows df = Inr ls" and
    X: \<open>X = butlast (''{"nodes":['' @
            concat (map (\<lambda>d. node_json d (the (dict_get labels d))) (map ?desc ?ks)))
          @ ''],'' @ butlast ('' "links":['' @ concat ls) @ '']}''\<close>
    by (cases "link_rows df") simp_all
  have ids: "map ?id ?ks = sort (remdups (map ?id (src @ tgt)))" by (rule emitted_ids)
  have sorted: "sorted_wrt (<) (map ?id ?ks)" by (simp only: ids strict_sorted_unique)
  then have dist: "distinct (map ?id ?ks)" by (simp add: strict_sorted_iff)
  have "set (map ?id ?ks) = set (map ?id (src @ tgt))" by (simp only: ids set_sort set_remdups)
  then have img: "?id ` set ?ks = ?id ` (set src \<union> set tgt)" by (simp add: image_Un)
  from X have X': \<open>X = butlast (''{"nodes":['' @
            concat (map (\<lambda>k. node_json (?desc k) (the (dict_get labels (?desc k)))) ?ks))
          @ ''],'' @ butlast ('' "links":['' @ concat ls) @ '']}''\<close>
    by (simp add: comp_def)
  from link_rows_Inr [OF ls] emitted_keys_subset [of labels src tgt] sorted dist img ls X'
  show ?thesis by blast
qed

lemma example_links_payload:
  \<open>get_data_ready_for_d3 example_links example_nodes =
     Inr ''{"nodes":[{"name":"A","color":"#fff","opacity":0.5}, {"name":"B","color":"#000","opacity":0.9},], "links":[{"source":1,"target":0,"value":3,"opacity":0.9,"color":"#000"},{"source":0,"target":1,"value":5,"opacity":0.5,"color":"#fff"}]}''\<close>
  by code_simp

lemma example_links_emitted: "emitted_keys example_nodes [''B'', ''A''] [''A'', ''B''] = [''A'', ''B'']"
  by code_simp

theorem payload_nodes_by_id_links_by_row_witness:
  \<open>c_source example_links = Some [''B'', ''A''] \<and>
   c_target example_links = Some [''A'', ''B''] \<and>
   set [''B'', ''A''] \<union> set [''A'', ''B''] \<subseteq> set (dict_keys example_nodes) \<and>
   get_data_ready_for_d3 example_links example_nodes =
     Inr ''{"nodes":[{"name":"A","color":"#fff","opacity":0.5}, {"name":"B","color":"#000","opacity":0.9},], "links":[{"source":1,"target":0,"value":3,"opacity":0.9,"color":"#000"},{"source":0,"target":1,"value":5,"opacity":0.5,"color":"#fff"}]}'' \<and>
   emitted_keys example_nodes [''B'', ''A''] [''A'', ''B''] = [''A'', ''B''] \<and>
   sorted_wrt (<) (map (\<lambda>k. node_id (the (dict_get example_nodes k)))
     (emitted_keys example_nodes [''B'', ''A''] [''A'', ''B''])) \<and>
   (\<exists>ls. link_rows example_links = Inr ls \<and> length ls = nrows example_links)\<close>
proof -
  have s: "c_source example_links = Some [''B'', ''A'']"
    and t: "c_target example_links = Some [''A'', ''B'']"
    by (simp_all add: example_links_def)
  have k: "set [''B'', ''A''] \<union> set [''A'', ''B''] \<subseteq> set (dict_keys example_nodes)"
    by (simp add: dict_keys_def example_nodes_def)
  note r = example_links_payload
  from payload_nodes_by_id_links_by_row [OF s t k r]
  have "sorted_wrt (<) (map (\<lambda>k. node_id (the (dict_get example_nodes k)))
          (emitted_keys example_nodes [''B'', ''A''] [''A'', ''B'']))"
    and "\<exists>ls. link_rows example_links = Inr ls \<and> length ls = nrows example_links"
    by blast+
  with s t k r example_links_emitted show ?thesis by (intro conjI)
qed

text \<open>
  Claim C10. The colour and the opacity of a node entry are read from
  \<^verbatim>\<open>labels.get(list_name[i])\<close>, the catalog entry whose key is the description of the node
  (lines 213-214). When the description of a visited node is not a key of the catalog the
  lookup finds nothing and the payload is not built; a payload is built only if every such
  description is a key; and then the entry of a node shows the colour and opacity of the
  catalog entry under its description, which is the node's own when description and key agree.
\<close>

theorem node_entries_looked_up_by_description:
  assumes "c_source df = Some src" and "c_target df = Some tgt"
    and "set src \<union> set tgt \<subseteq> set (dict_keys labels)"
  shows \<open>((\<exists>k \<in> set (emitted_keys labels src tgt).
             node_desc (the (dict_get labels k)) \<notin> set (dict_keys labels))
          \<longrightarrow> get_data_ready_for_d3 df labels = Inl MissingNode) \<and>
         (\<forall>X. get_data_ready_for_d3 df labels = Inr X
          \<longrightarrow> (\<forall>k \<in> set (emitted_keys labels src tgt).
                 node_desc (the (dict_get labels k)) \<in> set (dict_keys labels))) \<and>
         (\<forall>ls. (\<forall>k \<in> set (emitted_keys labels src tgt).
                  node_desc (the (dict_get labels k)) \<in> set (dict_keys labels)) \<and>
               link_rows df = Inr ls
          \<longrightarrow> get_data_ready_for_d3 df labels =
                Inr (butlast (''{"nodes":['' @
                       concat (map (\<lambda>k. node_json (node_desc (the (dict_get labels k)))
                              (the (dict_get labels (node_desc (the (dict_get labels k))))))
                          (emitted_keys labels src tgt)))
                     @ ''],'' @ butlast ('' "links":['' @ concat ls) @ '']}''))\<close>
proof -
  let ?desc = "\<lambda>k. node_desc (the (dict_get labels k))"
  let ?ks = "emitted_keys labels src tgt"
  note eq = get_data_ready_for_d3_known_keys [OF assms]
  have fail: "get_data_ready_for_d3 df labels = Inl MissingNode"
    if "\<exists>k \<in> set ?ks. ?desc k \<notin> set (dict_keys labels)"
  proof -
    from that have "\<not> set (map ?desc ?ks) \<subseteq> set (dict_keys labels)" by auto
    from emit_nodes_None [OF this] eq show ?thesis by simp
  qed
  have ok: \<open>get_data_ready_for_d3 df labels =
                Inr (butlast (''{"nodes":['' @
                       concat (map (\<lambda>k. node_json (?desc k) (the (dict_get labels (?desc k)))) ?ks))
                     @ ''],'' @ butlast ('' "links":['' @ concat ls) @ '']}'')\<close>
    if "\<forall>k \<in> set ?ks. ?desc k \<in> set (dict_keys labels)" and "link_rows df = Inr ls" for ls
  proof -
    from that(1) have "set (map ?desc ?ks) \<subseteq> set (dict_keys labels)" by auto
    from emit_nodes_Some [OF this] eq that(2) show ?thesis by (simp add: comp_def)
  qed
  have only: "\<forall>k \<in> set ?ks. ?desc k \<in> set (dict_keys labels)"
    if "get_data_ready_for_d3 df labels = Inr X" for X
  proof (rule ccontr)
    assume "\<not> ?thesis"
    then have "\<exists>k \<in> set ?ks. ?desc k \<notin> set (dict_keys labels)" by blast
    from fail [OF this] that show False by simp
  qed
  from fail ok only show ?thesis by blast
qed

theorem node_entries_looked_up_by_description_witness:
  "c_source example_edges = Some [''A''] \<and> c_target example_edges = Some [''B''] \<and>
   set [''A''] \<union> set [''B''] \<subseteq> set (dict_keys example_renamed_nodes) \<and>
   ''A'' \<in> set (emitted_keys example_renamed_nodes [''A''] [''B'']) \<and>
   node_desc (the (dict_get example_renamed_nodes ''A'')) = ''Alpha'' \<and>
   ''Alpha'' \<notin> set (dict_keys example_renamed_nodes) \<and>
   get_data_ready_for_d3 example_edges example_renamed_nodes = Inl MissingNode"
proof -
  have s: "c_source example_edges = Some [''A'']" and t: "c_target example_edges = Some [''B'']"
    by (simp_all add: example_edges_def)
  have k: "set [''A''] \<union> set [''B''] \<subseteq> set (dict_keys example_renamed_nodes)"
    by (simp add: dict_keys_def example_renamed_nodes_def)
  have e: "''A'' \<in> set (emitted_keys example_renamed_nodes [''A''] [''B''])"
    by code_simp
  have d: "node_desc (the (dict_get example_renamed_nodes ''A'')) = ''Alpha''"
    by (simp add: dict_get_def example_renamed_nodes_def)
  have n: "''Alpha'' \<notin> set (dict_keys example_renamed_nodes)"
    by (simp add: dict_keys_def example_renamed_nodes_def)
  from e d n have "\<exists>k \<in> set (emitted_keys example_renamed_nodes [''A''] [''B'']).
      node_desc (the (dict_get example_renamed_nodes k)) \<notin> set (dict_keys example_renamed_nodes)"
    by (intro bexI [of _ "''A''"]) simp_all
  with node_entries_looked_up_by_description [OF s t k]
  have "get_data_ready_for_d3 example_edges example_renamed_nodes = Inl MissingNode" by blast
  with s t k e d n show ?thesis by (intro conjI)
qed

subsection \<open>The round trip\<close>

text \<open>The table that \<^verbatim>\<open>set_edge_properties\<close> returns for the round trip.\<close>

lemma roundtrip_edges:
  "set_edge_properties (\<lambda>s. s) example_resolver example_edges (CStr ''source'') (OStr ''source'')
      ''tab20'' (Some example_nodes)
   = Inr (example_edges\<lparr>c_color := Some [''#fff''],
                        c_opacity := Some [FloatNum (Float ''0.5'')]\<rparr>)"
  by code_simp

text \<open>The text that \<^verbatim>\<open>show\<close> builds from that table, character by character.\<close>

lemma roundtrip_payload_exact:
  \<open>show_payload (example_edges\<lparr>c_color := Some [''#fff''],
                                c_opacity := Some [FloatNum (Float ''0.5'')]\<rparr>) example_nodes
   = Inr ''{"nodes":[{"name":"A","color":"#fff","opacity":0.5}, {"name":"B","color":"#000","opacity":0.9},], "links":[{"source":0,"target":1,"value":3,"opacity":0.5,"color":"#fff"}]}''\<close>
  by code_simp

text \<open>
  Claim C1, as amended. For the catalog and the one-row table of the round trip, with the
  colour and the opacity \<^verbatim>\<open>'source'\<close>, \<^verbatim>\<open>set_edge_properties\<close> returns a table from which
  the payload is built: the node entries of \<^verbatim>\<open>A\<close> and \<^verbatim>\<open>B\<close> in this order, separated by
  a comma and a space, and after a space the one link, with the names, colours, opacities,
  ids and the weight of the claim; numbers are not quoted and colours are. The statement
  leaves open whether a comma stands between the last node entry and the bracket that closes
  the node array.
\<close>

theorem roundtrip_payload:
  \<open>\<exists>df. set_edge_properties (\<lambda>s. s) example_resolver example_edges (CStr ''source'')
            (OStr ''source'') ''tab20'' (Some example_nodes) = Inr df \<and>
        (show_payload df example_nodes =
           Inr (''{"nodes":[{"name":"A","color":"#fff","opacity":0.5}, {"name":"B","color":"#000","opacity":0.9}''
                @ ''],'' @
                '' "links":[{"source":0,"target":1,"value":3,"opacity":0.5,"color":"#fff"}]}'') \<or>
         show_payload df example_nodes =
           Inr (''{"nodes":[{"name":"A","color":"#fff","opacity":0.5}, {"name":"B","color":"#000","opacity":0.9}''
                @ '',],'' @
                '' "links":[{"source":0,"target":1,"value":3,"opacity":0.5,"color":"#fff"}]}''))\<close>
proof (intro exI conjI)
  show "set_edge_properties (\<lambda>s. s) example_resolver example_edges (CStr ''source'')
            (OStr ''source'') ''tab20'' (Some example_nodes)
        = Inr (example_edges\<lparr>c_color := Some [''#fff''],
                             c_opacity := Some [FloatNum (Float ''0.5'')]\<rparr>)"
    by (rule roundtrip_edges)
  show \<open>show_payload (example_edges\<lparr>c_color := Some [''#fff''],
                             c_opacity := Some [FloatNum (Float ''0.5'')]\<rparr>) example_nodes =
           Inr (''{"nodes":[{"name":"A","color":"#fff","opacity":0.5}, {"name":"B","color":"#000","opacity":0.9}''
                @ ''],'' @
                '' "links":[{"source":0,"target":1,"value":3,"opacity":0.5,"color":"#fff"}]}'') \<or>
         show_payload (example_edges\<lparr>c_color := Some [''#fff''],
                             c_opacity := Some [FloatNum (Float ''0.5'')]\<rparr>) example_nodes =
           Inr (''{"nodes":[{"name":"A","color":"#fff","opacity":0.5}, {"name":"B","color":"#000","opacity":0.9}''
                @ '',],'' @
                '' "links":[{"source":0,"target":1,"value":3,"opacity":0.5,"color":"#fff"}]}'')\<close>
    by (simp add: roundtrip_payload_exact)
qed

text \<open>
  Claim C1 as stated fails: the payload is not the text without spaces that the claim gives.
\<close>

theorem roundtrip_payload_not_compact:
  \<open>\<not> (\<exists>df. set_edge_properties (\<lambda>s. s) example_resolver example_edges (CStr ''source'')
            (OStr ''source'') ''tab20'' (Some example_nodes) = Inr df \<and>
        show_payload df example_nodes =
           Inr ''{"nodes":[{"name":"A","color":"#fff","opacity":0.5},{"name":"B","color":"#000","opacity":0.9}],"links":[{"source":0,"target":1,"value":3,"opacity":0.5,"color":"#fff"}]}'')\<close>
  by (simp add: roundtrip_edges roundtrip_payload_exact)

end
